theory Spec2Isabelle
  imports Main
begin

section \<open>The dppy target registration glue (numba/dppy/initialize.py)\<close>

text \<open>
  The file defines four functions. Each of them runs import statements, and three of
  them write one entry into a registry owned by the host compiler; \<open>initialize_all\<close>
  also asks the native loader for two libraries. Python effects are made explicit: every
  function takes the state of the process (the \<open>world\<close>) and returns a result together
  with the state it leaves behind. An exception is the result \<open>Inl e\<close>; the state
  returned with it is the state at the moment of the raise, since Python undoes nothing
  when an exception propagates.
\<close>

subsection \<open>Failures\<close>

text \<open>
  The failures the statements of the file can raise: an import statement that does not
  find the module, an import statement that finds the module but not the name asked from
  it, and the native loader refusing a library.
\<close>

datatype error =
    ModuleNotFound string
  | CannotImportName string string
  | LoadFailure string

subsection \<open>Function objects and registry entries\<close>

text \<open>
  The function objects the file creates. \<open>init_jit\<close> is defined once, at module level.
  \<open>init_vectorize\<close> and \<open>init_guvectorize\<close> are nested definitions: each run of the
  enclosing function executes the \<open>def\<close> statement again and creates a new function
  object, told apart here by the number it was allocated under.
\<close>

datatype fn =
    Fn_init_jit
  | Fn_init_vectorize nat
  | Fn_init_guvectorize nat

text \<open>
  A registry entry is a zero-argument callable: one of the functions above, or a callable
  some other part of the host registered (its code is not in this file).
\<close>

datatype 'a factory =
    Here fn
  | Elsewhere 'a

text \<open>The three host registries the file writes to.\<close>

datatype registry =
    dispatcher_registry
  | Vectorize_target_registry
  | GUVectorize_target_registry

subsection \<open>Process state and host environment\<close>

text \<open>The observable effects, in the order in which they happen.\<close>

datatype 'a effect =
    Imported string
  | Registered registry string "'a factory"
  | Load_called string

text \<open>
  Modelled from the spec: the host registries are not defined in this file. The spec gives
  them as three separate mappings from a target name to a zero-argument lazy factory
  (\<open>ondemand\<close>). \<open>loaded\<close> is the set of native libraries resident in the process,
  \<open>next_fn\<close> numbers the function objects created by nested \<open>def\<close> statements, and
  \<open>trace\<close> is the history of effects.
\<close>

record 'a world =
  ondemand :: "registry \<Rightarrow> string \<rightharpoonup> 'a factory"
  loaded :: "string set"
  next_fn :: nat
  trace :: "'a effect list"

text \<open>
  What the file takes from its surroundings: which modules an import statement finds and
  the names each of them binds (\<open>'c\<close> is the type of the objects they bind), and which
  library names the native loader can load.
\<close>

record 'c host =
  modules :: "string \<Rightarrow> (string \<rightharpoonup> 'c) option"
  loadable :: "string \<Rightarrow> bool"

subsection \<open>Import statements\<close>

text \<open>\<open>import m\<close>: fails when the module is not found, otherwise yields its namespace.\<close>

definition import_module ::
  "'c host \<Rightarrow> string \<Rightarrow> 'a world \<Rightarrow> (error + (string \<rightharpoonup> 'c)) \<times> 'a world" where
  "import_module h m w =
     (case modules h m of
        None \<Rightarrow> (Inl (ModuleNotFound m), w)
      | Some ns \<Rightarrow> (Inr ns, w\<lparr>trace := trace w @ [Imported m]\<rparr>))"

definition getattr_from :: "string \<Rightarrow> (string \<rightharpoonup> 'c) \<Rightarrow> string \<Rightarrow> error + 'c" where
  "getattr_from m ns x =
     (case ns x of None \<Rightarrow> Inl (CannotImportName m x) | Some v \<Rightarrow> Inr v)"

text \<open>\<open>from m import x\<close>.\<close>

definition import_from ::
  "'c host \<Rightarrow> string \<Rightarrow> string \<Rightarrow> 'a world \<Rightarrow> (error + 'c) \<times> 'a world" where
  "import_from h m x w =
     (case import_module h m w of
        (Inl e, w1) \<Rightarrow> (Inl e, w1)
      | (Inr ns, w1) \<Rightarrow> (getattr_from m ns x, w1))"

text \<open>The object a module binds to a name, if the module is found and binds it.\<close>

definition lookup :: "'c host \<Rightarrow> string \<Rightarrow> string \<Rightarrow> 'c option" where
  "lookup h m x = (case modules h m of None \<Rightarrow> None | Some ns \<Rightarrow> ns x)"

subsection \<open>Host operations\<close>

text \<open>
  Modelled from the spec: item assignment on a registry's \<open>ondemand\<close> mapping, which is
  defined by the host and not in this file. The spec describes a mapping in which a
  second assignment to a key overwrites the first.
\<close>

definition ondemand_setitem ::
  "registry \<Rightarrow> string \<Rightarrow> 'a factory \<Rightarrow> 'a world \<Rightarrow> 'a world" where
  "ondemand_setitem r k f w =
     w\<lparr>ondemand := (ondemand w)(r := (ondemand w r)(k \<mapsto> f)),
       trace := trace w @ [Registered r k f]\<rparr>"

text \<open>
  Modelled from the spec: \<open>ll.load_library_permanently\<close> of llvmlite, not in this file:
  a process-wide operation that loads the named library and keeps it resident, and fails
  when the library cannot be found or loaded.
\<close>

definition load_library_permanently ::
  "'c host \<Rightarrow> string \<Rightarrow> 'a world \<Rightarrow> (error + unit) \<times> 'a world" where
  "load_library_permanently h name w =
     (let w1 = w\<lparr>trace := trace w @ [Load_called name]\<rparr>
      in if loadable h name
         then (Inr (), w1\<lparr>loaded := insert name (loaded w1)\<rparr>)
         else (Inl (LoadFailure name), w1))"

subsection \<open>The functions of the file\<close>

text \<open>
  \<^verbatim>\<open>
  def init_jit():
      from numba.dppy.dispatcher import DPPyDispatcher
      return DPPyDispatcher
  \<close>
\<close>

definition init_jit :: "'c host \<Rightarrow> 'a world \<Rightarrow> (error + 'c) \<times> 'a world" where
  "init_jit h w = import_from h ''numba.dppy.dispatcher'' ''DPPyDispatcher'' w"

text \<open>
  \<^verbatim>\<open>
  def initialize_all():
      from numba.targets.registry import dispatcher_registry
      dispatcher_registry.ondemand['dppy'] = init_jit

      ll.load_library_permanently('libdpglue.so')
      ll.load_library_permanently('libOpenCL.so')
  \<close>
\<close>

definition initialize_all :: "'c host \<Rightarrow> 'a world \<Rightarrow> (error + unit) \<times> 'a world" where
  "initialize_all h w =
     (case import_from h ''numba.targets.registry'' ''dispatcher_registry'' w of
        (Inl e, w1) \<Rightarrow> (Inl e, w1)
      | (Inr _, w1) \<Rightarrow>
          (let w2 = ondemand_setitem dispatcher_registry ''dppy'' (Here Fn_init_jit) w1
           in case load_library_permanently h ''libdpglue.so'' w2 of
                (Inl e, w3) \<Rightarrow> (Inl e, w3)
              | (Inr _, w3) \<Rightarrow> load_library_permanently h ''libOpenCL.so'' w3))"

text \<open>The nested definitions: the body each of the two closures runs when it is called.\<close>

definition init_vectorize :: "'c host \<Rightarrow> 'a world \<Rightarrow> (error + 'c) \<times> 'a world" where
  "init_vectorize h w = import_from h ''numba.dppy.vectorizers'' ''OclVectorize'' w"

definition init_guvectorize :: "'c host \<Rightarrow> 'a world \<Rightarrow> (error + 'c) \<times> 'a world" where
  "init_guvectorize h w =
     import_from h ''numba.dppy.vectorizers'' ''OclGUFuncVectorize'' w"

text \<open>Executing a nested \<open>def\<close> statement creates a new function object.\<close>

definition def_nested :: "(nat \<Rightarrow> fn) \<Rightarrow> 'a world \<Rightarrow> fn \<times> 'a world" where
  "def_nested mk w = (mk (next_fn w), w\<lparr>next_fn := Suc (next_fn w)\<rparr>)"

text \<open>
  \<^verbatim>\<open>
  def _initialize_ufunc():
      from numba.npyufunc import Vectorize

      def init_vectorize():
          from numba.dppy.vectorizers import OclVectorize

          return OclVectorize

      Vectorize.target_registry.ondemand['dppy'] = init_vectorize
  \<close>
  (An Isabelle name cannot start with an underscore, so the model drops it.)
\<close>

definition initialize_ufunc :: "'c host \<Rightarrow> 'a world \<Rightarrow> (error + unit) \<times> 'a world" where
  "initialize_ufunc h w =
     (case import_from h ''numba.npyufunc'' ''Vectorize'' w of
        (Inl e, w1) \<Rightarrow> (Inl e, w1)
      | (Inr _, w1) \<Rightarrow>
          (case def_nested Fn_init_vectorize w1 of
             (f, w2) \<Rightarrow>
               (Inr (), ondemand_setitem Vectorize_target_registry ''dppy'' (Here f) w2)))"

text \<open>
  \<^verbatim>\<open>
  def _initialize_gufunc():
      from numba.npyufunc import GUVectorize

      def init_guvectorize():
          from numba.dppy.vectorizers import OclGUFuncVectorize

          return OclGUFuncVectorize

      GUVectorize.target_registry.ondemand['dppy'] = init_guvectorize
  \<close>
\<close>

definition initialize_gufunc :: "'c host \<Rightarrow> 'a world \<Rightarrow> (error + unit) \<times> 'a world" where
  "initialize_gufunc h w =
     (case import_from h ''numba.npyufunc'' ''GUVectorize'' w of
        (Inl e, w1) \<Rightarrow> (Inl e, w1)
      | (Inr _, w1) \<Rightarrow>
          (case def_nested Fn_init_guvectorize w1 of
             (f, w2) \<Rightarrow>
               (Inr (), ondemand_setitem GUVectorize_target_registry ''dppy'' (Here f) w2)))"

text \<open>
  The module body: the import statements at the top of the file, followed by the four
  \<open>def\<close> statements, which bind names and have no other effect.
  \<^verbatim>\<open>
  from __future__ import absolute_import, print_function
  import llvmlite.binding as ll
  import os
  from distutils import sysconfig
  \<close>
\<close>

definition module_body :: "'c host \<Rightarrow> 'a world \<Rightarrow> (error + unit) \<times> 'a world" where
  "module_body h w =
     (case import_module h ''__future__'' w of
        (Inl e, w1) \<Rightarrow> (Inl e, w1)
      | (Inr ns, w1) \<Rightarrow>
     (case getattr_from ''__future__'' ns ''absolute_import'' of
        Inl e \<Rightarrow> (Inl e, w1)
      | Inr _ \<Rightarrow>
     (case getattr_from ''__future__'' ns ''print_function'' of
        Inl e \<Rightarrow> (Inl e, w1)
      | Inr _ \<Rightarrow>
     (case import_module h ''llvmlite.binding'' w1 of
        (Inl e, w2) \<Rightarrow> (Inl e, w2)
      | (Inr _, w2) \<Rightarrow>
     (case import_module h ''os'' w2 of
        (Inl e, w3) \<Rightarrow> (Inl e, w3)
      | (Inr _, w3) \<Rightarrow>
     (case import_from h ''distutils'' ''sysconfig'' w3 of
        (Inl e, w4) \<Rightarrow> (Inl e, w4)
      | (Inr _, w4) \<Rightarrow> (Inr (), w4)))))))"

subsection \<open>Calling what the file defines\<close>

text \<open>Calling one of the file's function objects runs its body.\<close>

fun call :: "'c host \<Rightarrow> fn \<Rightarrow> 'a world \<Rightarrow> (error + 'c) \<times> 'a world" where
  "call h Fn_init_jit w = init_jit h w"
| "call h (Fn_init_vectorize i) w = init_vectorize h w"
| "call h (Fn_init_guvectorize i) w = init_guvectorize h w"

text \<open>
  Modelled from the spec: the host invoking on demand the entry a registry holds under a
  key (the registry classes are not in this file): the factory stored there is called
  with no argument. The entries of other targets run code that is not in this file; what
  they do is not part of the model, and \<open>invoke_entry\<close> answers \<open>None\<close> for them and
  for a key with no entry.
\<close>

definition invoke_entry ::
  "'c host \<Rightarrow> registry \<Rightarrow> string \<Rightarrow> 'a world \<Rightarrow> ((error + 'c) \<times> 'a world) option" where
  "invoke_entry h r k w =
     (case ondemand w r k of
        Some (Here f) \<Rightarrow> Some (call h f w)
      | _ \<Rightarrow> None)"

text \<open>
  The effects an operation adds to the history when it runs in state \<open>w\<close>, and the parts
  of such a history that are import statements and loader calls.
\<close>

definition effects_of ::
  "('a world \<Rightarrow> 'r \<times> 'a world) \<Rightarrow> 'a world \<Rightarrow> 'a effect list" where
  "effects_of run w = drop (length (trace w)) (trace (snd (run w)))"

fun imported :: "'a effect list \<Rightarrow> string list" where
  "imported [] = []"
| "imported (Imported m # es) = m # imported es"
| "imported (e # es) = imported es"

fun load_calls :: "'a effect list \<Rightarrow> string list" where
  "load_calls [] = []"
| "load_calls (Load_called n # es) = n # load_calls es"
| "load_calls (e # es) = load_calls es"

fun registrations :: "'a effect list \<Rightarrow> (registry \<times> string \<times> 'a factory) list" where
  "registrations [] = []"
| "registrations (Registered r k f # es) = (r, k, f) # registrations es"
| "registrations (e # es) = registrations es"

text \<open>Running an operation a second time, in the state the first run left.\<close>

definition twice :: "('w \<Rightarrow> 'r \<times> 'w) \<Rightarrow> 'w \<Rightarrow> 'r \<times> 'w" where
  "twice run w = run (snd (run w))"

subsection \<open>Concrete hosts and states\<close>

text \<open>
  A host on which every module the file names is found and both libraries load, the same
  host without the device-glue library, and without the OpenCL runtime.
\<close>

definition host_modules :: "string \<Rightarrow> (string \<rightharpoonup> string) option" where
  "host_modules m =
     (if m = ''numba.targets.registry''
        then Some [''dispatcher_registry'' \<mapsto> ''TargetRegistry object'']
      else if m = ''numba.npyufunc''
        then Some [''Vectorize'' \<mapsto> ''class Vectorize'',
                   ''GUVectorize'' \<mapsto> ''class GUVectorize'']
      else if m = ''numba.dppy.dispatcher''
        then Some [''DPPyDispatcher'' \<mapsto> ''class DPPyDispatcher'']
      else if m = ''numba.dppy.vectorizers''
        then Some [''OclVectorize'' \<mapsto> ''class OclVectorize'',
                   ''OclGUFuncVectorize'' \<mapsto> ''class OclGUFuncVectorize'']
      else if m = ''__future__''
        then Some [''absolute_import'' \<mapsto> ''feature'', ''print_function'' \<mapsto> ''feature'']
      else if m = ''llvmlite.binding'' then Some Map.empty
      else if m = ''os'' then Some Map.empty
      else if m = ''distutils'' then Some [''sysconfig'' \<mapsto> ''module sysconfig'']
      else None)"

definition host_ok :: "string host" where
  "host_ok = \<lparr>modules = host_modules, loadable = (\<lambda>n. True)\<rparr>"

definition host_no_glue :: "string host" where
  "host_no_glue = \<lparr>modules = host_modules, loadable = (\<lambda>n. n \<noteq> ''libdpglue.so'')\<rparr>"

definition host_no_opencl :: "string host" where
  "host_no_opencl = \<lparr>modules = host_modules, loadable = (\<lambda>n. n \<noteq> ''libOpenCL.so'')\<rparr>"

text \<open>The same host when the optional dppy modules are not installed.\<close>

definition host_no_dppy :: "string host" where
  "host_no_dppy =
     \<lparr>modules = (\<lambda>m. if m = ''numba.dppy.dispatcher'' \<or> m = ''numba.dppy.vectorizers''
                      then None else host_modules m),
      loadable = (\<lambda>n. True)\<rparr>"

text \<open>
  A state before the file has run: a host target is registered under \<open>cuda\<close> in each
  registry, nothing under \<open>dppy\<close>, and no library is resident.
\<close>

definition world0 :: "string world" where
  "world0 =
     \<lparr>ondemand = (\<lambda>r. [''cuda'' \<mapsto> Elsewhere ''init_cuda'']),
      loaded = {},
      next_fn = 0,
      trace = []\<rparr>"

section \<open>Basic facts\<close>

subsection \<open>Import statements\<close>

lemma import_from_found:
  "lookup h m x = Some v \<Longrightarrow>
   import_from h m x w = (Inr v, w\<lparr>trace := trace w @ [Imported m]\<rparr>)"
  by (auto simp add: import_from_def import_module_def getattr_from_def lookup_def
      split: option.splits)

lemma import_from_no_module:
  "modules h m = None \<Longrightarrow> import_from h m x w = (Inl (ModuleNotFound m), w)"
  by (simp add: import_from_def import_module_def)

lemma import_from_no_name:
  "modules h m = Some ns \<Longrightarrow> ns x = None \<Longrightarrow>
   import_from h m x w =
     (Inl (CannotImportName m x), w\<lparr>trace := trace w @ [Imported m]\<rparr>)"
  by (simp add: import_from_def import_module_def getattr_from_def)

lemma import_from_not_found:
  assumes "lookup h m x = None"
  shows "import_from h m x w = (Inl (ModuleNotFound m), w) \<or>
         import_from h m x w =
           (Inl (CannotImportName m x), w\<lparr>trace := trace w @ [Imported m]\<rparr>)"
proof (cases "modules h m")
  case None
  then show ?thesis by (simp add: import_from_no_module)
next
  case (Some ns)
  with assms have "ns x = None" by (simp add: lookup_def)
  with Some show ?thesis by (simp add: import_from_no_name)
qed

subsection \<open>The three registration functions, case by case\<close>

lemma initialize_all_resolved:
  assumes "lookup h ''numba.targets.registry'' ''dispatcher_registry'' = Some v"
  shows "initialize_all h w =
     (if loadable h ''libdpglue.so''
      then (if loadable h ''libOpenCL.so'' then Inr () else Inl (LoadFailure ''libOpenCL.so''),
            w\<lparr>ondemand := (ondemand w)(dispatcher_registry :=
                   (ondemand w dispatcher_registry)(''dppy'' \<mapsto> Here Fn_init_jit)),
              trace := trace w @
                 [Imported ''numba.targets.registry'',
                  Registered dispatcher_registry ''dppy'' (Here Fn_init_jit),
                  Load_called ''libdpglue.so'', Load_called ''libOpenCL.so''],
              loaded := (if loadable h ''libOpenCL.so''
                         then insert ''libOpenCL.so'' (insert ''libdpglue.so'' (loaded w))
                         else insert ''libdpglue.so'' (loaded w))\<rparr>)
      else (Inl (LoadFailure ''libdpglue.so''),
            w\<lparr>ondemand := (ondemand w)(dispatcher_registry :=
                   (ondemand w dispatcher_registry)(''dppy'' \<mapsto> Here Fn_init_jit)),
              trace := trace w @
                 [Imported ''numba.targets.registry'',
                  Registered dispatcher_registry ''dppy'' (Here Fn_init_jit),
                  Load_called ''libdpglue.so'']\<rparr>))"
  by (cases "loadable h ''libdpglue.so''"; cases "loadable h ''libOpenCL.so''")
     (simp_all add: initialize_all_def import_from_found [OF assms] ondemand_setitem_def
      load_library_permanently_def Let_def)

lemma initialize_all_unresolved:
  assumes "lookup h ''numba.targets.registry'' ''dispatcher_registry'' = None"
  shows "initialize_all h w = (Inl (ModuleNotFound ''numba.targets.registry''), w) \<or>
         initialize_all h w =
           (Inl (CannotImportName ''numba.targets.registry'' ''dispatcher_registry''),
            w\<lparr>trace := trace w @ [Imported ''numba.targets.registry'']\<rparr>)"
  using import_from_not_found [OF assms, of w]
  by (elim disjE) (simp_all add: initialize_all_def)

lemma initialize_ufunc_resolved:
  assumes "lookup h ''numba.npyufunc'' ''Vectorize'' = Some v"
  shows "initialize_ufunc h w =
     (Inr (),
      w\<lparr>next_fn := Suc (next_fn w),
        ondemand := (ondemand w)(Vectorize_target_registry :=
           (ondemand w Vectorize_target_registry)
             (''dppy'' \<mapsto> Here (Fn_init_vectorize (next_fn w)))),
        trace := trace w @
           [Imported ''numba.npyufunc'',
            Registered Vectorize_target_registry ''dppy''
              (Here (Fn_init_vectorize (next_fn w)))]\<rparr>)"
  by (simp add: initialize_ufunc_def import_from_found [OF assms] def_nested_def
      ondemand_setitem_def)

lemma initialize_ufunc_unresolved:
  assumes "lookup h ''numba.npyufunc'' ''Vectorize'' = None"
  shows "initialize_ufunc h w = (Inl (ModuleNotFound ''numba.npyufunc''), w) \<or>
         initialize_ufunc h w =
           (Inl (CannotImportName ''numba.npyufunc'' ''Vectorize''),
            w\<lparr>trace := trace w @ [Imported ''numba.npyufunc'']\<rparr>)"
  using import_from_not_found [OF assms, of w]
  by (elim disjE) (simp_all add: initialize_ufunc_def)

lemma initialize_gufunc_resolved:
  assumes "lookup h ''numba.npyufunc'' ''GUVectorize'' = Some v"
  shows "initialize_gufunc h w =
     (Inr (),
      w\<lparr>next_fn := Suc (next_fn w),
        ondemand := (ondemand w)(GUVectorize_target_registry :=
           (ondemand w GUVectorize_target_registry)
             (''dppy'' \<mapsto> Here (Fn_init_guvectorize (next_fn w)))),
        trace := trace w @
           [Imported ''numba.npyufunc'',
            Registered GUVectorize_target_registry ''dppy''
              (Here (Fn_init_guvectorize (next_fn w)))]\<rparr>)"
  by (simp add: initialize_gufunc_def import_from_found [OF assms] def_nested_def
      ondemand_setitem_def)

lemma initialize_gufunc_unresolved:
  assumes "lookup h ''numba.npyufunc'' ''GUVectorize'' = None"
  shows "initialize_gufunc h w = (Inl (ModuleNotFound ''numba.npyufunc''), w) \<or>
         initialize_gufunc h w =
           (Inl (CannotImportName ''numba.npyufunc'' ''GUVectorize''),
            w\<lparr>trace := trace w @ [Imported ''numba.npyufunc'']\<rparr>)"
  using import_from_not_found [OF assms, of w]
  by (elim disjE) (simp_all add: initialize_gufunc_def)

subsection \<open>The concrete hosts\<close>

lemma host_ok_lookups:
  "lookup host_ok ''numba.targets.registry'' ''dispatcher_registry'' = Some ''TargetRegistry object''"
  "lookup host_ok ''numba.npyufunc'' ''Vectorize'' = Some ''class Vectorize''"
  "lookup host_ok ''numba.npyufunc'' ''GUVectorize'' = Some ''class GUVectorize''"
  "lookup host_ok ''numba.dppy.dispatcher'' ''DPPyDispatcher'' = Some ''class DPPyDispatcher''"
  "lookup host_ok ''numba.dppy.vectorizers'' ''OclVectorize'' = Some ''class OclVectorize''"
  "lookup host_ok ''numba.dppy.vectorizers'' ''OclGUFuncVectorize'' = Some ''class OclGUFuncVectorize''"
  by (simp_all add: lookup_def host_ok_def host_modules_def)

lemma host_no_glue_lookup:
  "lookup host_no_glue ''numba.targets.registry'' ''dispatcher_registry'' = Some ''TargetRegistry object''"
  by (simp add: lookup_def host_no_glue_def host_modules_def)

lemma host_no_glue_loadable:
  "\<not> loadable host_no_glue ''libdpglue.so''" "loadable host_no_glue ''libOpenCL.so''"
  by (simp_all add: host_no_glue_def)

lemma host_no_opencl_lookup:
  "lookup host_no_opencl ''numba.targets.registry'' ''dispatcher_registry'' = Some ''TargetRegistry object''"
  by (simp add: lookup_def host_no_opencl_def host_modules_def)

lemma host_no_opencl_loadable:
  "loadable host_no_opencl ''libdpglue.so''" "\<not> loadable host_no_opencl ''libOpenCL.so''"
  by (simp_all add: host_no_opencl_def)

lemma host_ok_loadable: "loadable host_ok n"
  by (simp add: host_ok_def)

lemma world0_dppy: "ondemand world0 r ''dppy'' = None"
  by (simp add: world0_def)

lemma world0_cuda: "ondemand world0 r ''cuda'' = Some (Elsewhere ''init_cuda'')"
  by (simp add: world0_def)

subsection \<open>The module body only imports\<close>

lemma import_module_cases:
  "import_module h m w = (Inl (ModuleNotFound m), w) \<or>
   (\<exists>ns. import_module h m w = (Inr ns, w\<lparr>trace := trace w @ [Imported m]\<rparr>))"
  by (simp add: import_module_def split: option.splits)

lemma import_from_cases:
  "import_from h m x w = (Inl (ModuleNotFound m), w) \<or>
   (\<exists>r. import_from h m x w = (r, w\<lparr>trace := trace w @ [Imported m]\<rparr>))"
  using import_module_cases [of h m w]
  by (auto simp add: import_from_def)

text \<open>A state that differs from \<open>w\<close> by import events only.\<close>

lemma only_imports_refl: "\<exists>ms. w = w\<lparr>trace := trace w @ map Imported ms\<rparr>"
  by (rule exI [of _ "[]"]) simp

lemma only_imports_step:
  assumes "\<exists>ms. v = w\<lparr>trace := trace w @ map Imported ms\<rparr>"
  shows "\<exists>ms. v\<lparr>trace := trace v @ [Imported m]\<rparr> = w\<lparr>trace := trace w @ map Imported ms\<rparr>"
proof -
  from assms obtain ms where "v = w\<lparr>trace := trace w @ map Imported ms\<rparr>" ..
  then have "v\<lparr>trace := trace v @ [Imported m]\<rparr>
    = w\<lparr>trace := trace w @ map Imported (ms @ [m])\<rparr>" by simp
  then show ?thesis ..
qed

lemma only_imports_import_module:
  assumes "\<exists>ms. v = w\<lparr>trace := trace w @ map Imported ms\<rparr>"
      and "import_module h m v = (r, v')"
  shows "\<exists>ms. v' = w\<lparr>trace := trace w @ map Imported ms\<rparr>"
proof -
  from import_module_cases [of h m v] assms(2)
  have "v' = v \<or> v' = v\<lparr>trace := trace v @ [Imported m]\<rparr>" by auto
  then show ?thesis
  proof
    assume "v' = v"
    with assms(1) show ?thesis by simp
  next
    assume "v' = v\<lparr>trace := trace v @ [Imported m]\<rparr>"
    with only_imports_step [OF assms(1), of m] show ?thesis by simp
  qed
qed

lemma only_imports_import_from:
  assumes "\<exists>ms. v = w\<lparr>trace := trace w @ map Imported ms\<rparr>"
      and "import_from h m x v = (r, v')"
  shows "\<exists>ms. v' = w\<lparr>trace := trace w @ map Imported ms\<rparr>"
proof -
  from import_from_cases [of h m x v] assms(2)
  have "v' = v \<or> v' = v\<lparr>trace := trace v @ [Imported m]\<rparr>" by auto
  then show ?thesis
  proof
    assume "v' = v"
    with assms(1) show ?thesis by simp
  next
    assume "v' = v\<lparr>trace := trace v @ [Imported m]\<rparr>"
    with only_imports_step [OF assms(1), of m] show ?thesis by simp
  qed
qed

lemma module_body_state:
  "\<exists>ms. snd (module_body h w) = w\<lparr>trace := trace w @ map Imported ms\<rparr>"
proof -
  obtain r1 w1 where e1: "import_module h ''__future__'' w = (r1, w1)"
    by (cases "import_module h ''__future__'' w")
  obtain r2 w2 where e2: "import_module h ''llvmlite.binding'' w1 = (r2, w2)"
    by (cases "import_module h ''llvmlite.binding'' w1")
  obtain r3 w3 where e3: "import_module h ''os'' w2 = (r3, w3)"
    by (cases "import_module h ''os'' w2")
  obtain r4 w4 where e4: "import_from h ''distutils'' ''sysconfig'' w3 = (r4, w4)"
    by (cases "import_from h ''distutils'' ''sysconfig'' w3")
  note p1 = only_imports_import_module [OF only_imports_refl e1]
  note p2 = only_imports_import_module [OF p1 e2]
  note p3 = only_imports_import_module [OF p2 e3]
  note p4 = only_imports_import_from [OF p3 e4]
  have "snd (module_body h w) = w1 \<or> snd (module_body h w) = w2 \<or>
        snd (module_body h w) = w3 \<or> snd (module_body h w) = w4"
    unfolding module_body_def e1
    by (cases r1; cases r2; cases r3; cases r4;
        simp add: e2 e3 e4 split: sum.splits)
  with p1 p2 p3 p4 show ?thesis by (elim disjE) simp_all
qed

lemma registrations_imported [simp]: "registrations (map Imported ms) = []"
  by (induction ms) simp_all

lemma load_calls_imported [simp]: "load_calls (map Imported ms) = []"
  by (induction ms) simp_all

subsection \<open>Running a registration twice\<close>

lemma initialize_all_success:
  assumes "fst (initialize_all h w) = Inr ()"
  shows "(\<exists>v. lookup h ''numba.targets.registry'' ''dispatcher_registry'' = Some v) \<and>
         loadable h ''libdpglue.so'' \<and> loadable h ''libOpenCL.so''"
proof (cases "lookup h ''numba.targets.registry'' ''dispatcher_registry''")
  case None
  from initialize_all_unresolved [OF None, of w] assms show ?thesis
    by (elim disjE) simp_all
next
  case (Some v)
  from assms show ?thesis
    by (cases "loadable h ''libdpglue.so''"; cases "loadable h ''libOpenCL.so''")
       (simp_all add: initialize_all_resolved [OF Some] Some)
qed

lemma initialize_ufunc_success:
  assumes "fst (initialize_ufunc h w) = Inr ()"
  shows "\<exists>v. lookup h ''numba.npyufunc'' ''Vectorize'' = Some v"
proof (cases "lookup h ''numba.npyufunc'' ''Vectorize''")
  case None
  from initialize_ufunc_unresolved [OF None, of w] assms show ?thesis
    by (elim disjE) simp_all
next
  case (Some v)
  then show ?thesis by simp
qed

lemma initialize_gufunc_success:
  assumes "fst (initialize_gufunc h w) = Inr ()"
  shows "\<exists>v. lookup h ''numba.npyufunc'' ''GUVectorize'' = Some v"
proof (cases "lookup h ''numba.npyufunc'' ''GUVectorize''")
  case None
  from initialize_gufunc_unresolved [OF None, of w] assms show ?thesis
    by (elim disjE) simp_all
next
  case (Some v)
  then show ?thesis by simp
qed

lemma init_jit_twice:
  "fst (twice (init_jit h) w) = fst (init_jit h w) \<and>
   ondemand (snd (twice (init_jit h) w)) = ondemand (snd (init_jit h w)) \<and>
   ondemand (snd (init_jit h w)) = ondemand w"
  by (simp add: twice_def init_jit_def import_from_def import_module_def
      split: option.splits)

lemma insert_pair_again:
  "insert a (insert b (insert a (insert b S))) = insert a (insert b S)"
  by blast

lemma initialize_all_twice:
  assumes "fst (initialize_all h w) = Inr ()"
  shows "fst (twice (initialize_all h) w) = Inr () \<and>
         ondemand (snd (twice (initialize_all h) w)) = ondemand (snd (initialize_all h w)) \<and>
         loaded (snd (twice (initialize_all h) w)) = loaded (snd (initialize_all h w))"
proof -
  from initialize_all_success [OF assms] obtain v
    where r: "lookup h ''numba.targets.registry'' ''dispatcher_registry'' = Some v"
      and l: "loadable h ''libdpglue.so''" "loadable h ''libOpenCL.so''" by blast
  show ?thesis
    by (simp add: twice_def initialize_all_resolved [OF r] l insert_pair_again)
qed

lemma initialize_ufunc_twice:
  assumes "fst (initialize_ufunc h w) = Inr ()"
  shows "fst (twice (initialize_ufunc h) w) = Inr () \<and>
         (\<forall>r k. (r, k) \<noteq> (Vectorize_target_registry, ''dppy'') \<longrightarrow>
            ondemand (snd (twice (initialize_ufunc h) w)) r k
              = ondemand (snd (initialize_ufunc h w)) r k) \<and>
         ondemand (snd (initialize_ufunc h w)) Vectorize_target_registry ''dppy''
           = Some (Here (Fn_init_vectorize (next_fn w))) \<and>
         ondemand (snd (twice (initialize_ufunc h) w)) Vectorize_target_registry ''dppy''
           = Some (Here (Fn_init_vectorize (Suc (next_fn w))))"
proof -
  from initialize_ufunc_success [OF assms] obtain v
    where r: "lookup h ''numba.npyufunc'' ''Vectorize'' = Some v" ..
  show ?thesis
    by (simp add: twice_def initialize_ufunc_resolved [OF r])
qed

lemma initialize_gufunc_twice:
  assumes "fst (initialize_gufunc h w) = Inr ()"
  shows "fst (twice (initialize_gufunc h) w) = Inr () \<and>
         (\<forall>r k. (r, k) \<noteq> (GUVectorize_target_registry, ''dppy'') \<longrightarrow>
            ondemand (snd (twice (initialize_gufunc h) w)) r k
              = ondemand (snd (initialize_gufunc h w)) r k) \<and>
         ondemand (snd (initialize_gufunc h w)) GUVectorize_target_registry ''dppy''
           = Some (Here (Fn_init_guvectorize (next_fn w))) \<and>
         ondemand (snd (twice (initialize_gufunc h) w)) GUVectorize_target_registry ''dppy''
           = Some (Here (Fn_init_guvectorize (Suc (next_fn w))))"
proof -
  from initialize_gufunc_success [OF assms] obtain v
    where r: "lookup h ''numba.npyufunc'' ''GUVectorize'' = Some v" ..
  show ?thesis
    by (simp add: twice_def initialize_gufunc_resolved [OF r])
qed

lemma call_ignores_number:
  "call h (Fn_init_vectorize i) w = call h (Fn_init_vectorize j) w"
  "call h (Fn_init_guvectorize i) w = call h (Fn_init_guvectorize j) w"
  by simp_all

subsection \<open>Sets of names\<close>

lemma disjoint_pairD: "A \<inter> {p, q} = {} \<Longrightarrow> p \<notin> A \<and> q \<notin> A"
  by blast

section \<open>The load failure and the dispatcher registration\<close>

text \<open>
  C1, as stated: when a named library cannot be loaded, \<open>initialize_all\<close> raises the
  load failure and leaves the dispatcher registry unchanged. This fails: on a host
  without \<open>libdpglue.so\<close>, starting from a registry with no \<open>dppy\<close> entry, the
  call raises the load failure and the registry holds \<open>dppy\<close> bound to \<open>init_jit\<close>,
  because the assignment is the statement before the two loader calls.
\<close>

theorem initialize_all_load_failure_counterexample:
  "fst (initialize_all host_no_glue world0) = Inl (LoadFailure ''libdpglue.so'') \<and>
   ondemand world0 dispatcher_registry ''dppy'' = None \<and>
   ondemand (snd (initialize_all host_no_glue world0)) dispatcher_registry ''dppy''
     = Some (Here Fn_init_jit)"
  by (simp add: initialize_all_resolved [OF host_no_glue_lookup] host_no_glue_loadable
      world0_dppy)

text \<open>
  C1, amended: when the import of the dispatcher registry resolves and one of the two
  named libraries cannot be loaded, \<open>initialize_all\<close> raises the load failure of the
  first library that cannot be loaded, and the registries it leaves are the ones it
  found with the single change that \<open>dppy\<close> in the dispatcher registry is bound to
  \<open>init_jit\<close>.
\<close>

theorem initialize_all_load_failure_keeps_registration:
  assumes "lookup h ''numba.targets.registry'' ''dispatcher_registry'' = Some v"
      and "\<not> (loadable h ''libdpglue.so'' \<and> loadable h ''libOpenCL.so'')"
  shows "fst (initialize_all h w) =
           Inl (LoadFailure (if loadable h ''libdpglue.so''
                             then ''libOpenCL.so'' else ''libdpglue.so'')) \<and>
         ondemand (snd (initialize_all h w)) =
           (ondemand w)(dispatcher_registry :=
              (ondemand w dispatcher_registry)(''dppy'' \<mapsto> Here Fn_init_jit))"
  using assms(2) by (simp add: initialize_all_resolved [OF assms(1)])

text \<open>
  C1, witness: on the host without \<open>libOpenCL.so\<close> the failure raised is that of
  \<open>libOpenCL.so\<close>; \<open>dppy\<close> is registered, the \<open>cuda\<close> entry and the elementwise
  registry are as before.
\<close>

theorem initialize_all_load_failure_keeps_registration_witness:
  "fst (initialize_all host_no_opencl world0) = Inl (LoadFailure ''libOpenCL.so'') \<and>
   ondemand (snd (initialize_all host_no_opencl world0)) dispatcher_registry ''dppy''
     = Some (Here Fn_init_jit) \<and>
   ondemand (snd (initialize_all host_no_opencl world0)) dispatcher_registry ''cuda''
     = Some (Elsewhere ''init_cuda'') \<and>
   ondemand (snd (initialize_all host_no_opencl world0)) Vectorize_target_registry ''dppy''
     = None"
  using initialize_all_load_failure_keeps_registration
          [of host_no_opencl "''TargetRegistry object''" world0]
  by (simp add: host_no_opencl_lookup host_no_opencl_loadable world0_dppy world0_cuda)

section \<open>The dispatcher entry\<close>

text \<open>
  C2: after \<open>initialize_all\<close> has run (its import of the dispatcher registry having
  resolved), the \<open>ondemand\<close> mapping of the dispatcher registry binds \<open>dppy\<close> to
  \<open>init_jit\<close>, and invoking that entry returns the object that the module
  \<open>numba.dppy.dispatcher\<close> binds to \<open>DPPyDispatcher\<close>. The entry is there whether
  or not the two libraries load afterwards.
\<close>

theorem initialize_all_registers_init_jit:
  assumes "lookup h ''numba.targets.registry'' ''dispatcher_registry'' = Some r"
      and "lookup h ''numba.dppy.dispatcher'' ''DPPyDispatcher'' = Some c"
  shows "ondemand (snd (initialize_all h w)) dispatcher_registry ''dppy''
           = Some (Here Fn_init_jit) \<and>
         map_option fst (invoke_entry h dispatcher_registry ''dppy'' (snd (initialize_all h w)))
           = Some (Inr c)"
proof -
  let ?w = "snd (initialize_all h w)"
  have reg: "ondemand ?w dispatcher_registry ''dppy'' = Some (Here Fn_init_jit)"
    by (simp add: initialize_all_resolved [OF assms(1)])
  have "fst (call h Fn_init_jit ?w) = Inr c"
    by (simp add: init_jit_def import_from_found [OF assms(2)])
  with reg show ?thesis by (simp add: invoke_entry_def)
qed

text \<open>
  C2, witness: on the host where everything resolves, starting from the state with no
  \<open>dppy\<close> entry.
\<close>

theorem initialize_all_registers_init_jit_witness:
  "ondemand (snd (initialize_all host_ok world0)) dispatcher_registry ''dppy''
     = Some (Here Fn_init_jit) \<and>
   map_option fst
     (invoke_entry host_ok dispatcher_registry ''dppy'' (snd (initialize_all host_ok world0)))
     = Some (Inr ''class DPPyDispatcher'')"
  using initialize_all_registers_init_jit [OF host_ok_lookups(1) host_ok_lookups(4), of world0]
  by simp

section \<open>The loader calls\<close>

text \<open>
  C3: the only names \<open>initialize_all\<close> passes to the loader are \<open>libdpglue.so\<close> and
  \<open>libOpenCL.so\<close>, in this order and each at most once; an invocation that returns
  has called the loader exactly twice, with these two names, and has added both to the
  libraries resident in the process.
\<close>

theorem initialize_all_load_calls:
  "load_calls (effects_of (initialize_all h) w)
     \<in> {[], [''libdpglue.so''], [''libdpglue.so'', ''libOpenCL.so'']} \<and>
   (fst (initialize_all h w) = Inr () \<longrightarrow>
      load_calls (effects_of (initialize_all h) w) = [''libdpglue.so'', ''libOpenCL.so''] \<and>
      loaded (snd (initialize_all h w))
        = insert ''libOpenCL.so'' (insert ''libdpglue.so'' (loaded w)))"
proof (cases "lookup h ''numba.targets.registry'' ''dispatcher_registry''")
  case None
  from initialize_all_unresolved [OF None, of w] show ?thesis
    by (elim disjE) (simp_all add: effects_of_def)
next
  case (Some v)
  show ?thesis
    by (cases "loadable h ''libdpglue.so''"; cases "loadable h ''libOpenCL.so''")
       (simp_all add: initialize_all_resolved [OF Some] effects_of_def)
qed

text \<open>C3, witness: the invocation on the host where both libraries load.\<close>

theorem initialize_all_load_calls_witness:
  "fst (initialize_all host_ok world0) = Inr () \<and>
   load_calls (effects_of (initialize_all host_ok) world0)
     = [''libdpglue.so'', ''libOpenCL.so''] \<and>
   loaded (snd (initialize_all host_ok world0)) = {''libOpenCL.so'', ''libdpglue.so''}"
proof -
  have ok: "fst (initialize_all host_ok world0) = Inr ()"
    by (simp add: initialize_all_resolved [OF host_ok_lookups(1)] host_ok_loadable)
  have "loaded world0 = {}" by (simp add: world0_def)
  with ok initialize_all_load_calls [of host_ok world0] show ?thesis by simp
qed

section \<open>The vectorizer entries\<close>

text \<open>
  C4: after \<open>_initialize_ufunc\<close> has run (its import of \<open>Vectorize\<close> having resolved),
  the \<open>ondemand\<close> mapping of the elementwise registry binds \<open>dppy\<close> to the closure
  \<open>init_vectorize\<close> created by that run, and invoking the entry returns the object that
  \<open>numba.dppy.vectorizers\<close> binds to \<open>OclVectorize\<close>. The same holds for
  \<open>_initialize_gufunc\<close>, the generalized registry, \<open>init_guvectorize\<close> and
  \<open>OclGUFuncVectorize\<close>.
\<close>

theorem vectorize_registrations:
  "(lookup h ''numba.npyufunc'' ''Vectorize'' = Some v \<longrightarrow>
      ondemand (snd (initialize_ufunc h w)) Vectorize_target_registry ''dppy''
        = Some (Here (Fn_init_vectorize (next_fn w))) \<and>
      (lookup h ''numba.dppy.vectorizers'' ''OclVectorize'' = Some c \<longrightarrow>
         map_option fst (invoke_entry h Vectorize_target_registry ''dppy''
                           (snd (initialize_ufunc h w))) = Some (Inr c))) \<and>
   (lookup h ''numba.npyufunc'' ''GUVectorize'' = Some v' \<longrightarrow>
      ondemand (snd (initialize_gufunc h w)) GUVectorize_target_registry ''dppy''
        = Some (Here (Fn_init_guvectorize (next_fn w))) \<and>
      (lookup h ''numba.dppy.vectorizers'' ''OclGUFuncVectorize'' = Some c' \<longrightarrow>
         map_option fst (invoke_entry h GUVectorize_target_registry ''dppy''
                           (snd (initialize_gufunc h w))) = Some (Inr c')))"
proof (intro conjI impI)
  assume r: "lookup h ''numba.npyufunc'' ''Vectorize'' = Some v"
  show e: "ondemand (snd (initialize_ufunc h w)) Vectorize_target_registry ''dppy''
        = Some (Here (Fn_init_vectorize (next_fn w)))"
    by (simp add: initialize_ufunc_resolved [OF r])
  assume c: "lookup h ''numba.dppy.vectorizers'' ''OclVectorize'' = Some c"
  show "map_option fst (invoke_entry h Vectorize_target_registry ''dppy''
                           (snd (initialize_ufunc h w))) = Some (Inr c)"
    by (simp add: invoke_entry_def e init_vectorize_def import_from_found [OF c])
next
  assume r: "lookup h ''numba.npyufunc'' ''GUVectorize'' = Some v'"
  show e: "ondemand (snd (initialize_gufunc h w)) GUVectorize_target_registry ''dppy''
        = Some (Here (Fn_init_guvectorize (next_fn w)))"
    by (simp add: initialize_gufunc_resolved [OF r])
  assume c: "lookup h ''numba.dppy.vectorizers'' ''OclGUFuncVectorize'' = Some c'"
  show "map_option fst (invoke_entry h GUVectorize_target_registry ''dppy''
                           (snd (initialize_gufunc h w))) = Some (Inr c')"
    by (simp add: invoke_entry_def e init_guvectorize_def import_from_found [OF c])
qed

text \<open>C4, witness: both registrations on the host where everything resolves.\<close>

theorem vectorize_registrations_witness:
  "ondemand (snd (initialize_ufunc host_ok world0)) Vectorize_target_registry ''dppy''
     = Some (Here (Fn_init_vectorize 0)) \<and>
   map_option fst (invoke_entry host_ok Vectorize_target_registry ''dppy''
                     (snd (initialize_ufunc host_ok world0)))
     = Some (Inr ''class OclVectorize'') \<and>
   ondemand (snd (initialize_gufunc host_ok world0)) GUVectorize_target_registry ''dppy''
     = Some (Here (Fn_init_guvectorize 0)) \<and>
   map_option fst (invoke_entry host_ok GUVectorize_target_registry ''dppy''
                     (snd (initialize_gufunc host_ok world0)))
     = Some (Inr ''class OclGUFuncVectorize'')"
proof -
  have n: "next_fn world0 = 0" by (simp add: world0_def)
  from vectorize_registrations
         [of host_ok "''class Vectorize''" world0 "''class OclVectorize''"
             "''class GUVectorize''" "''class OclGUFuncVectorize''"]
  show ?thesis by (simp add: host_ok_lookups n)
qed

section \<open>Laziness\<close>

text \<open>
  C5: none of \<open>initialize_all\<close>, \<open>_initialize_ufunc\<close> and \<open>_initialize_gufunc\<close> runs
  an import statement for \<open>numba.dppy.dispatcher\<close> or \<open>numba.dppy.vectorizers\<close>; the
  import of the dispatcher module is an effect of calling \<open>init_jit\<close>, and the import of
  the vectorizer module is an effect of calling \<open>init_vectorize\<close> or
  \<open>init_guvectorize\<close>. (What the host modules that the registration functions do import
  bring in when their own bodies are evaluated is outside this file.)
\<close>

theorem registration_is_lazy:
  "set (imported (effects_of (initialize_all h) w))
     \<inter> {''numba.dppy.dispatcher'', ''numba.dppy.vectorizers''} = {} \<and>
   set (imported (effects_of (initialize_ufunc h) w))
     \<inter> {''numba.dppy.dispatcher'', ''numba.dppy.vectorizers''} = {} \<and>
   set (imported (effects_of (initialize_gufunc h) w))
     \<inter> {''numba.dppy.dispatcher'', ''numba.dppy.vectorizers''} = {} \<and>
   (modules h ''numba.dppy.dispatcher'' \<noteq> None \<longrightarrow>
      imported (effects_of (call h Fn_init_jit) w) = [''numba.dppy.dispatcher'']) \<and>
   (modules h ''numba.dppy.vectorizers'' \<noteq> None \<longrightarrow>
      imported (effects_of (call h (Fn_init_vectorize i)) w) = [''numba.dppy.vectorizers''] \<and>
      imported (effects_of (call h (Fn_init_guvectorize j)) w) = [''numba.dppy.vectorizers''])"
proof -
  have a: "imported (effects_of (initialize_all h) w) \<in> {[], [''numba.targets.registry'']}"
  proof (cases "lookup h ''numba.targets.registry'' ''dispatcher_registry''")
    case None
    from initialize_all_unresolved [OF None, of w] show ?thesis
      by (elim disjE) (simp_all add: effects_of_def)
  next
    case (Some v)
    show ?thesis
      by (cases "loadable h ''libdpglue.so''"; cases "loadable h ''libOpenCL.so''")
         (simp_all add: initialize_all_resolved [OF Some] effects_of_def)
  qed
  have u: "imported (effects_of (initialize_ufunc h) w) \<in> {[], [''numba.npyufunc'']}"
  proof (cases "lookup h ''numba.npyufunc'' ''Vectorize''")
    case None
    from initialize_ufunc_unresolved [OF None, of w] show ?thesis
      by (elim disjE) (simp_all add: effects_of_def)
  next
    case (Some v)
    show ?thesis by (simp add: initialize_ufunc_resolved [OF Some] effects_of_def)
  qed
  have g: "imported (effects_of (initialize_gufunc h) w) \<in> {[], [''numba.npyufunc'']}"
  proof (cases "lookup h ''numba.npyufunc'' ''GUVectorize''")
    case None
    from initialize_gufunc_unresolved [OF None, of w] show ?thesis
      by (elim disjE) (simp_all add: effects_of_def)
  next
    case (Some v)
    show ?thesis by (simp add: initialize_gufunc_resolved [OF Some] effects_of_def)
  qed
  have c: "imported (effects_of (import_from h m x) w) = [m]" if "modules h m \<noteq> None" for m x
    using that by (auto simp add: effects_of_def import_from_def import_module_def)
  have ne: "''numba.targets.registry'' \<noteq> ''numba.dppy.dispatcher''"
    "''numba.targets.registry'' \<noteq> ''numba.dppy.vectorizers''"
    "''numba.npyufunc'' \<noteq> ''numba.dppy.dispatcher''"
    "''numba.npyufunc'' \<noteq> ''numba.dppy.vectorizers''"
    by simp_all
  have disj: "set ms \<inter> {p, q} = {}" if "ms = [] \<or> ms = [n]" "n \<noteq> p" "n \<noteq> q"
    for ms :: "string list" and n p q
    using that by auto
  from a have a': "set (imported (effects_of (initialize_all h) w))
     \<inter> {''numba.dppy.dispatcher'', ''numba.dppy.vectorizers''} = {}"
    by (intro disj [OF _ ne(1) ne(2)]) simp
  from u have u': "set (imported (effects_of (initialize_ufunc h) w))
     \<inter> {''numba.dppy.dispatcher'', ''numba.dppy.vectorizers''} = {}"
    by (intro disj [OF _ ne(3) ne(4)]) simp
  from g have g': "set (imported (effects_of (initialize_gufunc h) w))
     \<inter> {''numba.dppy.dispatcher'', ''numba.dppy.vectorizers''} = {}"
    by (intro disj [OF _ ne(3) ne(4)]) simp
  have f: "call h Fn_init_jit = import_from h ''numba.dppy.dispatcher'' ''DPPyDispatcher''"
    "call h (Fn_init_vectorize i) = import_from h ''numba.dppy.vectorizers'' ''OclVectorize''"
    "call h (Fn_init_guvectorize j)
       = import_from h ''numba.dppy.vectorizers'' ''OclGUFuncVectorize''"
    by (simp_all add: fun_eq_iff init_jit_def init_vectorize_def init_guvectorize_def)
  note c1 = c [of "''numba.dppy.dispatcher''" "''DPPyDispatcher''"]
  note c2 = c [of "''numba.dppy.vectorizers''" "''OclVectorize''"]
  note c3 = c [of "''numba.dppy.vectorizers''" "''OclGUFuncVectorize''"]
  show ?thesis unfolding f
    using a' u' g' c1 c2 c3 by (intro conjI impI) (assumption | erule (1) notE | blast)+
qed

text \<open>C5, witness: the three registrations and the three calls on the full host.\<close>

theorem registration_is_lazy_witness:
  "''numba.dppy.dispatcher'' \<notin> set (imported (effects_of (initialize_all host_ok) world0)) \<and>
   ''numba.dppy.vectorizers'' \<notin> set (imported (effects_of (initialize_ufunc host_ok) world0)) \<and>
   ''numba.dppy.vectorizers'' \<notin> set (imported (effects_of (initialize_gufunc host_ok) world0)) \<and>
   imported (effects_of (call host_ok Fn_init_jit) world0) = [''numba.dppy.dispatcher''] \<and>
   imported (effects_of (call host_ok (Fn_init_vectorize 0)) world0)
     = [''numba.dppy.vectorizers''] \<and>
   imported (effects_of (call host_ok (Fn_init_guvectorize 0)) world0)
     = [''numba.dppy.vectorizers'']"
proof -
  have m1: "modules host_ok ''numba.dppy.dispatcher'' \<noteq> None"
    by (simp add: host_ok_def host_modules_def)
  have m2: "modules host_ok ''numba.dppy.vectorizers'' \<noteq> None"
    by (simp add: host_ok_def host_modules_def)
  note t = registration_is_lazy [of host_ok world0 0 0]
  note t1 = t [THEN conjunct1, THEN disjoint_pairD, THEN conjunct1]
  note t2 = t [THEN conjunct2, THEN conjunct1, THEN disjoint_pairD, THEN conjunct2]
  note t3 = t [THEN conjunct2, THEN conjunct2, THEN conjunct1, THEN disjoint_pairD,
               THEN conjunct2]
  note t4 = t [THEN conjunct2, THEN conjunct2, THEN conjunct2, THEN conjunct1, THEN mp, OF m1]
  note t5 = t [THEN conjunct2, THEN conjunct2, THEN conjunct2, THEN conjunct2, THEN mp, OF m2]
  from t1 t2 t3 t4 t5 show ?thesis by (intro conjI) (assumption | erule conjunct1 | erule conjunct2)+
qed

section \<open>Running an operation twice\<close>

text \<open>
  C6: for each of the four operations, a second invocation after a successful first one
  succeeds too and leaves every registry as the first invocation left it. For
  \<open>init_jit\<close> and \<open>initialize_all\<close> the registries are equal (and so are the resident
  libraries). For \<open>_initialize_ufunc\<close> and \<open>_initialize_gufunc\<close> every entry other than
  \<open>dppy\<close> of the targeted registry is equal, and \<open>dppy\<close> is bound to the closure the
  second run created, which behaves as the first one on every host and in every state.
  The error type has no duplicate-key failure: the host mapping is modelled as the spec
  describes it, a mapping whose item assignment overwrites.
\<close>

theorem registration_idempotent:
  "(fst (twice (init_jit h) w) = fst (init_jit h w) \<and>
    ondemand (snd (twice (init_jit h) w)) = ondemand (snd (init_jit h w))) \<and>
   (fst (initialize_all h w) = Inr () \<longrightarrow>
      fst (twice (initialize_all h) w) = Inr () \<and>
      ondemand (snd (twice (initialize_all h) w)) = ondemand (snd (initialize_all h w)) \<and>
      loaded (snd (twice (initialize_all h) w)) = loaded (snd (initialize_all h w))) \<and>
   (fst (initialize_ufunc h w) = Inr () \<longrightarrow>
      fst (twice (initialize_ufunc h) w) = Inr () \<and>
      (\<forall>r k. (r, k) \<noteq> (Vectorize_target_registry, ''dppy'') \<longrightarrow>
         ondemand (snd (twice (initialize_ufunc h) w)) r k
           = ondemand (snd (initialize_ufunc h w)) r k) \<and>
      ondemand (snd (initialize_ufunc h w)) Vectorize_target_registry ''dppy''
        = Some (Here (Fn_init_vectorize (next_fn w))) \<and>
      ondemand (snd (twice (initialize_ufunc h) w)) Vectorize_target_registry ''dppy''
        = Some (Here (Fn_init_vectorize (Suc (next_fn w)))) \<and>
      (\<forall>(h' :: 'c host) (w' :: 'a world).
         call h' (Fn_init_vectorize (Suc (next_fn w))) w'
           = call h' (Fn_init_vectorize (next_fn w)) w')) \<and>
   (fst (initialize_gufunc h w) = Inr () \<longrightarrow>
      fst (twice (initialize_gufunc h) w) = Inr () \<and>
      (\<forall>r k. (r, k) \<noteq> (GUVectorize_target_registry, ''dppy'') \<longrightarrow>
         ondemand (snd (twice (initialize_gufunc h) w)) r k
           = ondemand (snd (initialize_gufunc h w)) r k) \<and>
      ondemand (snd (initialize_gufunc h w)) GUVectorize_target_registry ''dppy''
        = Some (Here (Fn_init_guvectorize (next_fn w))) \<and>
      ondemand (snd (twice (initialize_gufunc h) w)) GUVectorize_target_registry ''dppy''
        = Some (Here (Fn_init_guvectorize (Suc (next_fn w)))) \<and>
      (\<forall>(h' :: 'c host) (w' :: 'a world).
         call h' (Fn_init_guvectorize (Suc (next_fn w))) w'
           = call h' (Fn_init_guvectorize (next_fn w)) w'))"
  for h :: "'c host" and w :: "'a world"
proof (intro conjI impI)
  show "fst (twice (init_jit h) w) = fst (init_jit h w)"
    and "ondemand (snd (twice (init_jit h) w)) = ondemand (snd (init_jit h w))"
    using init_jit_twice [of h w] by simp_all
next
  assume a: "fst (initialize_all h w) = Inr ()"
  from initialize_all_twice [OF a]
  show "fst (twice (initialize_all h) w) = Inr ()"
    and "ondemand (snd (twice (initialize_all h) w)) = ondemand (snd (initialize_all h w))"
    and "loaded (snd (twice (initialize_all h) w)) = loaded (snd (initialize_all h w))"
    by simp_all
next
  assume a: "fst (initialize_ufunc h w) = Inr ()"
  note t = initialize_ufunc_twice [OF a]
  from t show "fst (twice (initialize_ufunc h) w) = Inr ()" by (rule conjunct1)
  from t show "\<forall>r k. (r, k) \<noteq> (Vectorize_target_registry, ''dppy'') \<longrightarrow>
         ondemand (snd (twice (initialize_ufunc h) w)) r k
           = ondemand (snd (initialize_ufunc h w)) r k"
    by (elim conjE)
  from t show "ondemand (snd (initialize_ufunc h w)) Vectorize_target_registry ''dppy''
        = Some (Here (Fn_init_vectorize (next_fn w)))" by (elim conjE)
  from t show "ondemand (snd (twice (initialize_ufunc h) w)) Vectorize_target_registry ''dppy''
        = Some (Here (Fn_init_vectorize (Suc (next_fn w))))" by (elim conjE)
  show "\<forall>(h' :: 'c host) (w' :: 'a world).
         call h' (Fn_init_vectorize (Suc (next_fn w))) w'
           = call h' (Fn_init_vectorize (next_fn w)) w'"
    by (intro allI) (rule call_ignores_number)
next
  assume a: "fst (initialize_gufunc h w) = Inr ()"
  note t = initialize_gufunc_twice [OF a]
  from t show "fst (twice (initialize_gufunc h) w) = Inr ()" by (rule conjunct1)
  from t show "\<forall>r k. (r, k) \<noteq> (GUVectorize_target_registry, ''dppy'') \<longrightarrow>
         ondemand (snd (twice (initialize_gufunc h) w)) r k
           = ondemand (snd (initialize_gufunc h w)) r k"
    by (elim conjE)
  from t show "ondemand (snd (initialize_gufunc h w)) GUVectorize_target_registry ''dppy''
        = Some (Here (Fn_init_guvectorize (next_fn w)))" by (elim conjE)
  from t show "ondemand (snd (twice (initialize_gufunc h) w)) GUVectorize_target_registry ''dppy''
        = Some (Here (Fn_init_guvectorize (Suc (next_fn w))))" by (elim conjE)
  show "\<forall>(h' :: 'c host) (w' :: 'a world).
         call h' (Fn_init_guvectorize (Suc (next_fn w))) w'
           = call h' (Fn_init_guvectorize (next_fn w)) w'"
    by (intro allI) (rule call_ignores_number)
qed

text \<open>C6, witness: each registration run twice on the host where everything resolves.\<close>

theorem registration_idempotent_witness:
  "fst (initialize_all host_ok world0) = Inr () \<and>
   fst (twice (initialize_all host_ok) world0) = Inr () \<and>
   ondemand (snd (twice (initialize_all host_ok) world0))
     = ondemand (snd (initialize_all host_ok world0)) \<and>
   fst (initialize_ufunc host_ok world0) = Inr () \<and>
   fst (twice (initialize_ufunc host_ok) world0) = Inr () \<and>
   ondemand (snd (twice (initialize_ufunc host_ok) world0)) Vectorize_target_registry ''cuda''
     = ondemand (snd (initialize_ufunc host_ok world0)) Vectorize_target_registry ''cuda'' \<and>
   ondemand (snd (initialize_ufunc host_ok world0)) Vectorize_target_registry ''dppy''
     = Some (Here (Fn_init_vectorize 0)) \<and>
   ondemand (snd (twice (initialize_ufunc host_ok) world0)) Vectorize_target_registry ''dppy''
     = Some (Here (Fn_init_vectorize 1)) \<and>
   call host_ok (Fn_init_vectorize 1) world0 = call host_ok (Fn_init_vectorize 0) world0 \<and>
   fst (initialize_gufunc host_ok world0) = Inr () \<and>
   fst (twice (initialize_gufunc host_ok) world0) = Inr () \<and>
   ondemand (snd (twice (initialize_gufunc host_ok) world0)) GUVectorize_target_registry ''dppy''
     = Some (Here (Fn_init_guvectorize 1))"
proof -
  have s1: "fst (initialize_all host_ok world0) = Inr ()"
    by (simp add: initialize_all_resolved [OF host_ok_lookups(1)] host_ok_loadable)
  have s2: "fst (initialize_ufunc host_ok world0) = Inr ()"
    by (simp add: initialize_ufunc_resolved [OF host_ok_lookups(2)])
  have s3: "fst (initialize_gufunc host_ok world0) = Inr ()"
    by (simp add: initialize_gufunc_resolved [OF host_ok_lookups(3)])
  have n: "next_fn world0 = 0" by (simp add: world0_def)
  have k: "(Vectorize_target_registry, ''cuda'') \<noteq> (Vectorize_target_registry, ''dppy'')"
    by simp
  note t = registration_idempotent [of host_ok world0]
  note ta = t [THEN conjunct2, THEN conjunct1, THEN mp, OF s1]
  note tu = t [THEN conjunct2, THEN conjunct2, THEN conjunct1, THEN mp, OF s2]
  note tg = t [THEN conjunct2, THEN conjunct2, THEN conjunct2, THEN mp, OF s3]
  note tu_frame = tu [THEN conjunct2, THEN conjunct1, THEN spec, THEN spec, THEN mp, OF k]
  from tu have tu_call:
    "call host_ok (Fn_init_vectorize (Suc (next_fn world0))) world0
       = call host_ok (Fn_init_vectorize (next_fn world0)) world0"
    by blast
  from s1 s2 s3 ta tu tg tu_frame tu_call show ?thesis
    unfolding n by (simp only: One_nat_def simp_thms)
qed

section \<open>What a registration leaves alone\<close>

text \<open>
  C7: each of the three registration functions changes no registry entry other than
  \<open>dppy\<close> in the one registry it targets, and the only assignment among its effects,
  if any, is that one.
\<close>

theorem registration_frame:
  "(\<forall>r k. (r, k) \<noteq> (dispatcher_registry, ''dppy'') \<longrightarrow>
      ondemand (snd (initialize_all h w)) r k = ondemand w r k) \<and>
   (\<forall>r k. (r, k) \<noteq> (Vectorize_target_registry, ''dppy'') \<longrightarrow>
      ondemand (snd (initialize_ufunc h w)) r k = ondemand w r k) \<and>
   (\<forall>r k. (r, k) \<noteq> (GUVectorize_target_registry, ''dppy'') \<longrightarrow>
      ondemand (snd (initialize_gufunc h w)) r k = ondemand w r k) \<and>
   registrations (effects_of (initialize_all h) w)
     \<in> {[], [(dispatcher_registry, ''dppy'', Here Fn_init_jit)]} \<and>
   registrations (effects_of (initialize_ufunc h) w)
     \<in> {[], [(Vectorize_target_registry, ''dppy'', Here (Fn_init_vectorize (next_fn w)))]} \<and>
   registrations (effects_of (initialize_gufunc h) w)
     \<in> {[], [(GUVectorize_target_registry, ''dppy'', Here (Fn_init_guvectorize (next_fn w)))]}"
proof -
  have a: "(\<forall>r k. (r, k) \<noteq> (dispatcher_registry, ''dppy'') \<longrightarrow>
      ondemand (snd (initialize_all h w)) r k = ondemand w r k) \<and>
     registrations (effects_of (initialize_all h) w)
       \<in> {[], [(dispatcher_registry, ''dppy'', Here Fn_init_jit)]}"
  proof (cases "lookup h ''numba.targets.registry'' ''dispatcher_registry''")
    case None
    from initialize_all_unresolved [OF None, of w] show ?thesis
      by (elim disjE) (simp_all add: effects_of_def)
  next
    case (Some v)
    show ?thesis
      by (cases "loadable h ''libdpglue.so''"; cases "loadable h ''libOpenCL.so''")
         (simp_all add: initialize_all_resolved [OF Some] effects_of_def)
  qed
  have u: "(\<forall>r k. (r, k) \<noteq> (Vectorize_target_registry, ''dppy'') \<longrightarrow>
      ondemand (snd (initialize_ufunc h w)) r k = ondemand w r k) \<and>
     registrations (effects_of (initialize_ufunc h) w)
       \<in> {[], [(Vectorize_target_registry, ''dppy'', Here (Fn_init_vectorize (next_fn w)))]}"
  proof (cases "lookup h ''numba.npyufunc'' ''Vectorize''")
    case None
    from initialize_ufunc_unresolved [OF None, of w] show ?thesis
      by (elim disjE) (simp_all add: effects_of_def)
  next
    case (Some v)
    show ?thesis by (simp add: initialize_ufunc_resolved [OF Some] effects_of_def)
  qed
  have g: "(\<forall>r k. (r, k) \<noteq> (GUVectorize_target_registry, ''dppy'') \<longrightarrow>
      ondemand (snd (initialize_gufunc h w)) r k = ondemand w r k) \<and>
     registrations (effects_of (initialize_gufunc h) w)
       \<in> {[], [(GUVectorize_target_registry, ''dppy'', Here (Fn_init_guvectorize (next_fn w)))]}"
  proof (cases "lookup h ''numba.npyufunc'' ''GUVectorize''")
    case None
    from initialize_gufunc_unresolved [OF None, of w] show ?thesis
      by (elim disjE) (simp_all add: effects_of_def)
  next
    case (Some v)
    show ?thesis by (simp add: initialize_gufunc_resolved [OF Some] effects_of_def)
  qed
  from a u g show ?thesis by blast
qed

text \<open>
  C7, witness: the \<open>cuda\<close> entry of the targeted registry and the \<open>dppy\<close> key of another
  registry, after each of the three registrations.
\<close>

theorem registration_frame_witness:
  "ondemand (snd (initialize_all host_ok world0)) dispatcher_registry ''cuda''
     = Some (Elsewhere ''init_cuda'') \<and>
   ondemand (snd (initialize_all host_ok world0)) Vectorize_target_registry ''dppy'' = None \<and>
   ondemand (snd (initialize_ufunc host_ok world0)) Vectorize_target_registry ''cuda''
     = Some (Elsewhere ''init_cuda'') \<and>
   ondemand (snd (initialize_ufunc host_ok world0)) GUVectorize_target_registry ''dppy'' = None \<and>
   ondemand (snd (initialize_gufunc host_ok world0)) GUVectorize_target_registry ''cuda''
     = Some (Elsewhere ''init_cuda'') \<and>
   ondemand (snd (initialize_gufunc host_ok world0)) dispatcher_registry ''dppy'' = None"
proof -
  note f = registration_frame [of host_ok world0]
  from f have 1: "ondemand (snd (initialize_all host_ok world0)) dispatcher_registry ''cuda''
      = ondemand world0 dispatcher_registry ''cuda''" by simp
  from f have 2: "ondemand (snd (initialize_all host_ok world0)) Vectorize_target_registry ''dppy''
      = ondemand world0 Vectorize_target_registry ''dppy''" by simp
  from f have 3: "ondemand (snd (initialize_ufunc host_ok world0)) Vectorize_target_registry ''cuda''
      = ondemand world0 Vectorize_target_registry ''cuda''" by simp
  from f have 4: "ondemand (snd (initialize_ufunc host_ok world0)) GUVectorize_target_registry ''dppy''
      = ondemand world0 GUVectorize_target_registry ''dppy''" by simp
  from f have 5: "ondemand (snd (initialize_gufunc host_ok world0)) GUVectorize_target_registry ''cuda''
      = ondemand world0 GUVectorize_target_registry ''cuda''" by simp
  from f have 6: "ondemand (snd (initialize_gufunc host_ok world0)) dispatcher_registry ''dppy''
      = ondemand world0 dispatcher_registry ''dppy''" by simp
  from 1 2 3 4 5 6 show ?thesis by (simp add: world0_dppy world0_cuda)
qed

section \<open>Failures of the deferred resolution\<close>

text \<open>
  C8: the result of calling \<open>init_jit\<close>, \<open>init_vectorize\<close> or \<open>init_guvectorize\<close> is
  the result of its one import statement, whatever that is. When the resolution fails,
  the call raises that failure (module not found, or name not found in the module) and
  the state it leaves is the one the single failed import left.
\<close>

theorem factory_failure_propagates:
  "call h Fn_init_jit w = import_from h ''numba.dppy.dispatcher'' ''DPPyDispatcher'' w \<and>
   call h (Fn_init_vectorize i) w
     = import_from h ''numba.dppy.vectorizers'' ''OclVectorize'' w \<and>
   call h (Fn_init_guvectorize j) w
     = import_from h ''numba.dppy.vectorizers'' ''OclGUFuncVectorize'' w \<and>
   (lookup h ''numba.dppy.dispatcher'' ''DPPyDispatcher'' = None \<longrightarrow>
      call h Fn_init_jit w =
        (if modules h ''numba.dppy.dispatcher'' = None
         then (Inl (ModuleNotFound ''numba.dppy.dispatcher''), w)
         else (Inl (CannotImportName ''numba.dppy.dispatcher'' ''DPPyDispatcher''),
               w\<lparr>trace := trace w @ [Imported ''numba.dppy.dispatcher'']\<rparr>))) \<and>
   (lookup h ''numba.dppy.vectorizers'' ''OclVectorize'' = None \<longrightarrow>
      call h (Fn_init_vectorize i) w =
        (if modules h ''numba.dppy.vectorizers'' = None
         then (Inl (ModuleNotFound ''numba.dppy.vectorizers''), w)
         else (Inl (CannotImportName ''numba.dppy.vectorizers'' ''OclVectorize''),
               w\<lparr>trace := trace w @ [Imported ''numba.dppy.vectorizers'']\<rparr>))) \<and>
   (lookup h ''numba.dppy.vectorizers'' ''OclGUFuncVectorize'' = None \<longrightarrow>
      call h (Fn_init_guvectorize j) w =
        (if modules h ''numba.dppy.vectorizers'' = None
         then (Inl (ModuleNotFound ''numba.dppy.vectorizers''), w)
         else (Inl (CannotImportName ''numba.dppy.vectorizers'' ''OclGUFuncVectorize''),
               w\<lparr>trace := trace w @ [Imported ''numba.dppy.vectorizers'']\<rparr>)))"
proof -
  have fail: "import_from h m x w =
      (if modules h m = None then (Inl (ModuleNotFound m), w)
       else (Inl (CannotImportName m x), w\<lparr>trace := trace w @ [Imported m]\<rparr>))"
    if "lookup h m x = None" for m x
  proof (cases "modules h m")
    case None
    then show ?thesis by (simp add: import_from_no_module)
  next
    case (Some ns)
    with that have "ns x = None" by (simp add: lookup_def)
    with Some show ?thesis by (simp add: import_from_no_name)
  qed
  have c: "call h Fn_init_jit w = import_from h ''numba.dppy.dispatcher'' ''DPPyDispatcher'' w"
    "call h (Fn_init_vectorize i) w
       = import_from h ''numba.dppy.vectorizers'' ''OclVectorize'' w"
    "call h (Fn_init_guvectorize j) w
       = import_from h ''numba.dppy.vectorizers'' ''OclGUFuncVectorize'' w"
    by (simp_all add: init_jit_def init_vectorize_def init_guvectorize_def)
  note f1 = fail [of "''numba.dppy.dispatcher''" "''DPPyDispatcher''"]
  note f2 = fail [of "''numba.dppy.vectorizers''" "''OclVectorize''"]
  note f3 = fail [of "''numba.dppy.vectorizers''" "''OclGUFuncVectorize''"]
  show ?thesis unfolding c
    using f1 f2 f3 by (intro conjI impI) (rule refl | assumption)+
qed

text \<open>C8, witness: the three factories on the host without the dppy modules.\<close>

theorem factory_failure_propagates_witness:
  "call host_no_dppy Fn_init_jit world0
     = (Inl (ModuleNotFound ''numba.dppy.dispatcher''), world0) \<and>
   call host_no_dppy (Fn_init_vectorize 0) world0
     = (Inl (ModuleNotFound ''numba.dppy.vectorizers''), world0) \<and>
   call host_no_dppy (Fn_init_guvectorize 0) world0
     = (Inl (ModuleNotFound ''numba.dppy.vectorizers''), world0)"
proof -
  have m: "modules host_no_dppy ''numba.dppy.dispatcher'' = None"
    "modules host_no_dppy ''numba.dppy.vectorizers'' = None"
    by (simp_all add: host_no_dppy_def)
  then have l: "lookup host_no_dppy ''numba.dppy.dispatcher'' ''DPPyDispatcher'' = None"
    "lookup host_no_dppy ''numba.dppy.vectorizers'' ''OclVectorize'' = None"
    "lookup host_no_dppy ''numba.dppy.vectorizers'' ''OclGUFuncVectorize'' = None"
    by (simp_all add: lookup_def)
  note t = factory_failure_propagates [of host_no_dppy world0 0 0]
  note t4 = t [THEN conjunct2, THEN conjunct2, THEN conjunct2, THEN conjunct1, THEN mp, OF l(1)]
  note t5 = t [THEN conjunct2, THEN conjunct2, THEN conjunct2, THEN conjunct2, THEN conjunct1,
               THEN mp, OF l(2)]
  note t6 = t [THEN conjunct2, THEN conjunct2, THEN conjunct2, THEN conjunct2, THEN conjunct2,
               THEN mp, OF l(3)]
  from t4 t5 t6 show ?thesis by (simp only: m if_True simp_thms)
qed

section \<open>The order of the steps of initialize_all\<close>

text \<open>
  C9: when the import of the dispatcher registry resolves, the effects of one invocation
  of \<open>initialize_all\<close> are, in this order, the import, the assignment of \<open>dppy\<close> in
  the dispatcher registry, the loader call for \<open>libdpglue.so\<close> and, only if that
  call succeeded, the loader call for \<open>libOpenCL.so\<close>. When the invocation raises the
  load failure of \<open>libdpglue.so\<close>, the loader was not called for \<open>libOpenCL.so\<close>, no
  library was added to the process, and \<open>dppy\<close> is registered.
\<close>

theorem initialize_all_order:
  "(lookup h ''numba.targets.registry'' ''dispatcher_registry'' = Some r \<longrightarrow>
      effects_of (initialize_all h) w =
        [Imported ''numba.targets.registry'',
         Registered dispatcher_registry ''dppy'' (Here Fn_init_jit),
         Load_called ''libdpglue.so'']
        @ (if loadable h ''libdpglue.so'' then [Load_called ''libOpenCL.so''] else [])) \<and>
   (fst (initialize_all h w) = Inl (LoadFailure ''libdpglue.so'') \<longrightarrow>
      Load_called ''libOpenCL.so'' \<notin> set (effects_of (initialize_all h) w) \<and>
      loaded (snd (initialize_all h w)) = loaded w \<and>
      ondemand (snd (initialize_all h w)) dispatcher_registry ''dppy''
        = Some (Here Fn_init_jit))"
proof (cases "lookup h ''numba.targets.registry'' ''dispatcher_registry''")
  case None
  from initialize_all_unresolved [OF None, of w] show ?thesis
    by (elim disjE) (simp_all add: None)
next
  case (Some v)
  show ?thesis
    by (cases "loadable h ''libdpglue.so''"; cases "loadable h ''libOpenCL.so''")
       (simp_all add: initialize_all_resolved [OF Some] effects_of_def)
qed

text \<open>
  C9, witness: the full sequence on the host where both libraries load, and the
  shortened one on the host without \<open>libdpglue.so\<close>.
\<close>

theorem initialize_all_order_witness:
  "effects_of (initialize_all host_ok) world0 =
     [Imported ''numba.targets.registry'',
      Registered dispatcher_registry ''dppy'' (Here Fn_init_jit),
      Load_called ''libdpglue.so'', Load_called ''libOpenCL.so''] \<and>
   fst (initialize_all host_no_glue world0) = Inl (LoadFailure ''libdpglue.so'') \<and>
   effects_of (initialize_all host_no_glue) world0 =
     [Imported ''numba.targets.registry'',
      Registered dispatcher_registry ''dppy'' (Here Fn_init_jit),
      Load_called ''libdpglue.so''] \<and>
   loaded (snd (initialize_all host_no_glue world0)) = {} \<and>
   ondemand (snd (initialize_all host_no_glue world0)) dispatcher_registry ''dppy''
     = Some (Here Fn_init_jit)"
proof -
  have fails: "fst (initialize_all host_no_glue world0) = Inl (LoadFailure ''libdpglue.so'')"
    by (simp add: initialize_all_resolved [OF host_no_glue_lookup] host_no_glue_loadable)
  have empty: "loaded world0 = {}" by (simp add: world0_def)
  from fails empty
    initialize_all_order [of host_ok "''TargetRegistry object''" world0]
    initialize_all_order [of host_no_glue "''TargetRegistry object''" world0]
  show ?thesis
    by (simp add: host_ok_lookups(1) host_no_glue_lookup host_ok_loadable
        host_no_glue_loadable)
qed

section \<open>Evaluating the module\<close>

text \<open>
  C10: evaluating the module body leaves the three registries and the set of resident
  libraries as they were, and its effects contain no registry assignment and no loader
  call. (What the bodies of the imported modules do when they are evaluated is outside
  this file.)
\<close>

theorem module_body_registers_and_loads_nothing:
  "ondemand (snd (module_body h w)) = ondemand w \<and>
   loaded (snd (module_body h w)) = loaded w \<and>
   registrations (effects_of (module_body h) w) = [] \<and>
   load_calls (effects_of (module_body h) w) = []"
proof -
  from module_body_state [of h w] obtain ms
    where "snd (module_body h w) = w\<lparr>trace := trace w @ map Imported ms\<rparr>" ..
  then show ?thesis by (simp add: effects_of_def)
qed

end
